theory Spec2Isabelle
  imports Main "HOL-Library.Sublist"
begin

text \<open>
  A small web application that logs users in with Google through OAuth 2.0. Its sources are
  app.js, in two variants (the starter code and its later form), and models/user.js. The
  application's own functions are translated from these sources. The libraries they call
  (the document mapper with its find-or-create plugin, the authentication middleware with
  its OAuth 2.0 strategy, and the web framework) are not part of the repository; each is
  modelled by the contract its callers rely on, and said to be so where it is defined.
\<close>

section \<open>Errors and callbacks\<close>

text \<open>
  The application is written in Node's callback style: an asynchronous operation takes a
  completion callback and hands it an error (or \<open>null\<close>) and a value. A callback is a
  function of these two arguments; what it returns is the rest of the computation. The
  error argument is an \<open>error option\<close>, with \<open>None\<close> for \<open>null\<close>.
\<close>

datatype error =
    ReferenceError string
  | TypeError string
  | DatabaseError string
  | OAuthError string
  | SessionError string

section \<open>Session serialization (app.js, lines 30 to 35)\<close>

text \<open>
  \<^verbatim>\<open>passport.serializeUser((user, done) => { done(null, user); });\<close>
  \<^verbatim>\<open>passport.deserializeUser((user, done) => { done(null, user); });\<close>
  Only the first variant of app.js has these two functions and registers them; the second
  variant (lines 88 to 157) registers no serializer and no deserializer.
\<close>

definition serializeUser :: "'u \<Rightarrow> (error option \<Rightarrow> 'u \<Rightarrow> 'k) \<Rightarrow> 'k" where
  "serializeUser user done = done None user"

definition deserializeUser :: "'u \<Rightarrow> (error option \<Rightarrow> 'u \<Rightarrow> 'k) \<Rightarrow> 'k" where
  "deserializeUser user done = done None user"

section \<open>The User model (models/user.js)\<close>

text \<open>
  A stored document is an identifier and the values at the paths it has; all values of this
  schema are strings. The schema declares three paths, nested under \<open>google\<close>:
  \<^verbatim>\<open>google: { id: String, access_token: String, email: String }\<close>.
\<close>

type_synonym field_path = string

text \<open>An object literal with string values, such as \<^verbatim>\<open>{ googleId: profile.id }\<close>.\<close>

type_synonym conditions = "(field_path \<times> string) list"

record document =
  doc_id :: nat
  doc_fields :: "(field_path \<times> string) list"

record collection =
  docs :: "document list"
  next_id :: nat

definition userSchema :: "field_path list" where
  "userSchema = [''google.id'', ''google.access_token'', ''google.email'']"

subsection \<open>The object-document mapper and its find-or-create plugin\<close>

text \<open>
  \<^verbatim>\<open>userSchema.plugin(findOrCreate)\<close> gives the model the static operation
  \<open>findOrCreate(conditions, callback)\<close>. The plugin (mongoose-findorcreate) and the mapper
  (mongoose) are libraries the application calls, not code of the repository; they are
  modelled by their contract. The plugin looks for one document
  that meets the conditions and hands it to the callback; when there is none it builds a
  document from the conditions, saves it and hands that to the callback. A failure of the
  lookup reaches the callback as its error, with no document; a failure of the save reaches
  it as its error, together with the unsaved document.

  The mapper applies the schema when a document is built: a schema is strict unless it says
  otherwise, and this one says nothing, so a value at a path the schema does not declare is
  left out of the document. A query condition is sent to the database as it is written: a
  condition on a path is met by the documents that hold that value at that path.

  What the database answers is not in the program's hands: \<open>db_faults\<close> says whether the
  lookup and the save of one call fail.
\<close>

record db_faults =
  find_fault :: "error option"
  save_fault :: "error option"

definition matches :: "conditions \<Rightarrow> document \<Rightarrow> bool" where
  "matches cond d = list_all (\<lambda>(k, v). map_of (doc_fields d) k = Some v) cond"

definition new_document :: "field_path list \<Rightarrow> nat \<Rightarrow> conditions \<Rightarrow> document" where
  "new_document schema i obj =
     \<lparr>doc_id = i, doc_fields = filter (\<lambda>(k, v). k \<in> set schema) obj\<rparr>"

definition findOrCreate ::
  "field_path list \<Rightarrow> db_faults \<Rightarrow> conditions \<Rightarrow>
   (error option \<Rightarrow> document option \<Rightarrow> collection \<Rightarrow> 'r) \<Rightarrow> collection \<Rightarrow> 'r" where
  "findOrCreate schema w cond callback db =
     (case find_fault w of
        Some e \<Rightarrow> callback (Some e) None db
      | None \<Rightarrow>
          (case find (matches cond) (docs db) of
             Some result \<Rightarrow> callback None (Some result) db
           | None \<Rightarrow>
               (let obj = new_document schema (next_id db) cond in
                case save_fault w of
                  Some e \<Rightarrow> callback (Some e) (Some obj) db
                | None \<Rightarrow>
                    callback None (Some obj)
                      (db\<lparr>docs := docs db @ [obj], next_id := Suc (next_id db)\<rparr>))))"

section \<open>The verification callback (app.js, lines 53 to 57 and 131 to 135)\<close>

text \<open>
  \<^verbatim>\<open>function(accessToken, refreshToken, profile, done) {\<close>
  \<^verbatim>\<open>  User.findOrCreate({ googleId: profile.id }, function (err, user) {\<close>
  \<^verbatim>\<open>    return done(err, user);\<close>
  \<^verbatim>\<open>  });\<close>
  \<^verbatim>\<open>}\<close>
  The function is the same in both variants of app.js. It is written here over any
  find-or-create operation \<open>User_findOrCreate\<close>; the application's is that of the User
  model.
\<close>

record profile =
  profile_id :: string
  displayName :: string
  emails :: "string list"

definition verify ::
  "(conditions \<Rightarrow> (error option \<Rightarrow> 'u option \<Rightarrow> 'k) \<Rightarrow> 'k) \<Rightarrow>
   string \<Rightarrow> string \<Rightarrow> profile \<Rightarrow> (error option \<Rightarrow> 'u option \<Rightarrow> 'k) \<Rightarrow> 'k" where
  "verify User_findOrCreate accessToken refreshToken profile done =
     User_findOrCreate [(''googleId'', profile_id profile)] (\<lambda>err user. done err user)"

section \<open>Requests, responses and the application's state\<close>

text \<open>
  Every route of app.js is registered with \<open>app.get\<close>, so a request is a GET request: its
  path, the session its cookie names, and the two query parameters the OAuth redirect
  carries (\<open>None\<close> when the parameter is absent or empty). The state the application owns is
  the User collection and the session store, which maps a session to the object kept as its
  logged-in user.
\<close>

record request =
  path :: string
  sid :: nat
  query_code :: "string option"
  query_error :: "string option"

record authorization_request =
  client_id :: string
  redirect_uri :: string
  scope_param :: "string option"

datatype location = Local string | Provider authorization_request

datatype response =
    Redirect location
  | Render string "(string \<times> document option) list"
  | Unauthorized
  | NotFound
  | ServerError error

record state =
  users :: collection
  sessions :: "nat \<rightharpoonup> document"

text \<open>
  What lies outside the program, for one request: the two values of the untracked file
  app-env.js, the provider's answer to an authorization code (an error, or the access token,
  the refresh token and the profile), and the faults of the database.
\<close>

record env =
  GOOGLE_CLIENT_ID :: string
  GOOGLE_CLIENT_SECRET :: string

record world =
  ENV :: env
  exchange :: "string \<Rightarrow> error + (string \<times> string \<times> profile)"
  faults :: db_faults

section \<open>The authentication middleware and the OAuth 2.0 strategy\<close>

text \<open>
  Both are libraries (passport and passport-google-oauth), not code of the repository;
  app.js configures them and mounts them on its routes. They are modelled by their
  contract. A strategy ends a request's authentication by one action: success with a user,
  failure, an error, or a redirect.
\<close>

datatype 'u action = Success 'u | Fail | Error error | RedirectTo location

record strategy_config =
  clientID :: string
  clientSecret :: string
  callbackURL :: string

record options =
  scope :: "string option"
  successRedirect :: "string option"
  failureRedirect :: "string option"

text \<open>
  The strategy calls the verify function with a completion callback that reads its two
  arguments so: an error is an error, no user is a failure, a user is a success.
\<close>

definition verified :: "error option \<Rightarrow> 'u option \<Rightarrow> 'u action" where
  "verified err user =
     (case err of
        Some e \<Rightarrow> Error e
      | None \<Rightarrow> (case user of None \<Rightarrow> Fail | Some u \<Rightarrow> Success u))"

text \<open>
  The OAuth 2.0 strategy serves both legs of the redirect flow, and tells them apart by the
  request's query, not by the route it is mounted on: a request that carries \<open>error\<close> fails
  (when the user denied access) or is an error; a request that carries \<open>code\<close> has the code
  exchanged at the provider and, with the tokens and the profile, the verify function
  called; any other request is redirected to the provider's authorization endpoint, with
  the scope of the options.
\<close>

definition OAuth2Strategy ::
  "strategy_config \<Rightarrow>
   (string \<Rightarrow> string \<Rightarrow> profile \<Rightarrow> (error option \<Rightarrow> 'u option \<Rightarrow> 'k) \<Rightarrow> 'k) \<Rightarrow>
   (string \<Rightarrow> error + (string \<times> string \<times> profile)) \<Rightarrow>
   options \<Rightarrow> request \<Rightarrow> ('u action \<Rightarrow> 'k) \<Rightarrow> 'k" where
  "OAuth2Strategy config verify_fn exchange_code opts req k =
     (case query_error req of
        Some e \<Rightarrow> if e = ''access_denied'' then k Fail else k (Error (OAuthError e))
      | None \<Rightarrow>
          (case query_code req of
             Some code \<Rightarrow>
               (case exchange_code code of
                  Inl e \<Rightarrow> k (Error e)
                | Inr (accessToken, refreshToken, prof) \<Rightarrow>
                    verify_fn accessToken refreshToken prof (\<lambda>err user. k (verified err user)))
           | None \<Rightarrow>
               k (RedirectTo (Provider
                    \<lparr>client_id = clientID config, redirect_uri = callbackURL config,
                     scope_param = scope opts\<rparr>))))"

text \<open>
  \<open>passport.authenticate(strategy, options)\<close> is the route middleware. On success it logs
  the user in (the registered \<open>serializeUser\<close> gives the object kept in the session) and
  redirects to \<open>successRedirect\<close>, or passes the request on when there is none; no later
  handler of app.js matches, which is a 404. When the application has registered no
  serializer, logging in fails with the error "Failed to serialize user into session". On
  failure the middleware redirects to \<open>failureRedirect\<close>, or answers 401 when there is
  none. An error is given to the framework's error handling, which answers 500. A redirect
  is sent as it is.
\<close>

definition authenticate ::
  "(document \<Rightarrow> (error option \<Rightarrow> document \<Rightarrow> state \<times> response) \<Rightarrow> state \<times> response) option \<Rightarrow>
   (options \<Rightarrow> request \<Rightarrow> (document action \<Rightarrow> collection \<Rightarrow> state \<times> response) \<Rightarrow>
      collection \<Rightarrow> state \<times> response) \<Rightarrow>
   options \<Rightarrow> request \<Rightarrow> state \<Rightarrow> state \<times> response" where
  "authenticate serializer strategy opts req s =
     strategy opts req
       (\<lambda>action db.
          let s' = s\<lparr>users := db\<rparr> in
          (case action of
             Success user \<Rightarrow>
               (case serializer of
                  None \<Rightarrow>
                    (s', ServerError (SessionError ''Failed to serialize user into session''))
                | Some serialize \<Rightarrow>
                    serialize user
                      (\<lambda>err obj.
                         case err of
                           Some e \<Rightarrow> (s', ServerError e)
                         | None \<Rightarrow>
                             (s'\<lparr>sessions := (sessions s')(sid req \<mapsto> obj)\<rparr>,
                              (case successRedirect opts of
                                 Some url \<Rightarrow> Redirect (Local url)
                               | None \<Rightarrow> NotFound))))
           | Fail \<Rightarrow>
               (s', (case failureRedirect opts of
                       Some url \<Rightarrow> Redirect (Local url)
                     | None \<Rightarrow> Unauthorized))
           | Error e \<Rightarrow> (s', ServerError e)
           | RedirectTo loc \<Rightarrow> (s', Redirect loc)))
       (users s)"

text \<open>
  \<open>passport.session()\<close> runs before the routes: when the request's session holds an
  object, the registered \<open>deserializeUser\<close> turns it into \<open>req.user\<close>; an error of
  \<open>deserializeUser\<close> ends the request, and so does a session object when the application
  has registered no deserializer ("Failed to deserialize user out of session").
\<close>

definition current_user ::
  "(document \<Rightarrow> (error option \<Rightarrow> document \<Rightarrow> error + document option) \<Rightarrow>
      error + document option) option \<Rightarrow>
   state \<Rightarrow> request \<Rightarrow> error + document option" where
  "current_user deserializer s req =
     (case sessions s (sid req) of
        None \<Rightarrow> Inr None
      | Some obj \<Rightarrow>
          (case deserializer of
             None \<Rightarrow> Inl (SessionError ''Failed to deserialize user out of session'')
           | Some deserialize \<Rightarrow>
               deserialize obj
                 (\<lambda>err user. case err of Some e \<Rightarrow> Inl e | None \<Rightarrow> Inr (Some user))))"

section \<open>Route handlers written as functions (app.js)\<close>

text \<open>
  The handlers of \<open>/logout\<close> and \<open>/\<close> are functions of app.js. The framework calls a
  handler with the request object, the response object and \<open>next\<close>; the handler's
  parameters bind them by position, and a name the body uses is looked up among the
  parameters first and then among the names of the enclosing module. A name bound nowhere
  raises a ReferenceError when it is evaluated. The framework answers 500 when a handler
  throws.
\<close>

datatype jsval = Undefined | ModuleVal | ReqObj "document option" | ResObj | NextFn

type_synonym bindings = "string \<rightharpoonup> jsval"

datatype variant = V1 | V2

text \<open>
  The names app.js declares at its top level (lines 1 to 13 and 40 to 42 of the first
  variant, 88 to 98 and 117 to 119 of the second), and names Node gives every module: those
  of the module wrapper and the common globals. Neither \<open>req\<close> nor \<open>res\<close> is a global of
  Node or of the language.
\<close>

definition module_names :: "variant \<Rightarrow> string list" where
  "module_names v =
     (case v of
        V1 \<Rightarrow>
          [''express'', ''path'', ''logger'', ''bodyParser'', ''app'', ''mongoose'',
           ''passport'', ''expressSession'', ''cookieParser'', ''User'', ''ENV'',
           ''findOrCreate'', ''googleClientKey'', ''googleClientSecret'', ''GoogleStrategy'']
      | V2 \<Rightarrow>
          [''express'', ''path'', ''logger'', ''bodyParser'', ''app'', ''mongoose'',
           ''passport'', ''expressSession'', ''cookieParser'', ''User'', ''ENV'',
           ''googleClientKey'', ''googleClientSecret'', ''GoogleStrategy''])"

definition node_names :: "string list" where
  "node_names =
     [''exports'', ''require'', ''module'', ''__filename'', ''__dirname'', ''global'',
      ''process'', ''console'', ''Buffer'', ''setTimeout'', ''clearTimeout'',
      ''setInterval'', ''clearInterval'', ''setImmediate'', ''clearImmediate'']"

definition module_scope :: "variant \<Rightarrow> bindings" where
  "module_scope v = map_of (map (\<lambda>n. (n, ModuleVal)) (module_names v @ node_names))"

definition resolve :: "bindings \<Rightarrow> string \<Rightarrow> error + jsval" where
  "resolve b x = (case b x of None \<Rightarrow> Inl (ReferenceError x) | Some v \<Rightarrow> Inr v)"

text \<open>
  The three methods and the one property the handlers use. \<open>req.logout()\<close> ends the login
  session: the session no longer holds a user. Calling a method on a value that does not
  have it is a TypeError.
\<close>

definition req_logout :: "jsval \<Rightarrow> request \<Rightarrow> state \<Rightarrow> error + state" where
  "req_logout r req s =
     (case r of
        ReqObj u \<Rightarrow> Inr (s\<lparr>sessions := (sessions s)(sid req := None)\<rparr>)
      | _ \<Rightarrow> Inl (TypeError ''logout''))"

definition res_redirect :: "jsval \<Rightarrow> string \<Rightarrow> error + response" where
  "res_redirect r url =
     (case r of ResObj \<Rightarrow> Inr (Redirect (Local url)) | _ \<Rightarrow> Inl (TypeError ''redirect''))"

definition res_render ::
  "jsval \<Rightarrow> string \<Rightarrow> (string \<times> document option) list \<Rightarrow> error + response" where
  "res_render r view locals =
     (case r of ResObj \<Rightarrow> Inr (Render view locals) | _ \<Rightarrow> Inl (TypeError ''render''))"

definition req_user :: "jsval \<Rightarrow> error + document option" where
  "req_user r =
     (case r of
        ReqObj u \<Rightarrow> Inr u
      | Undefined \<Rightarrow> Inl (TypeError ''user'')
      | _ \<Rightarrow> Inr None)"

text \<open>
  The body of the logout handler, the same in both variants:
  \<^verbatim>\<open>req.logout(); res.redirect('/')\<close>.
  The state is returned also when a statement throws, as it is at that point.
\<close>

definition logout_body :: "bindings \<Rightarrow> request \<Rightarrow> state \<Rightarrow> state \<times> (error + response)" where
  "logout_body b req s =
     (case resolve b ''req'' of
        Inl e \<Rightarrow> (s, Inl e)
      | Inr r \<Rightarrow>
          (case req_logout r req s of
             Inl e \<Rightarrow> (s, Inl e)
           | Inr s' \<Rightarrow>
               (case resolve b ''res'' of
                  Inl e \<Rightarrow> (s', Inl e)
                | Inr rs \<Rightarrow> (s', res_redirect rs ''/''))))"

text \<open>
  The body of the home page's handler, the same in both variants:
  \<^verbatim>\<open>res.render('layout', {user: req.user});\<close>
\<close>

definition home_body :: "bindings \<Rightarrow> request \<Rightarrow> state \<Rightarrow> state \<times> (error + response)" where
  "home_body b req s =
     (case resolve b ''res'' of
        Inl e \<Rightarrow> (s, Inl e)
      | Inr rs \<Rightarrow>
          (case resolve b ''req'' of
             Inl e \<Rightarrow> (s, Inl e)
           | Inr r \<Rightarrow>
               (case req_user r of
                  Inl e \<Rightarrow> (s, Inl e)
                | Inr u \<Rightarrow> (s, res_render rs ''layout'' [(''user'', u)]))))"

definition call_handler ::
  "bindings \<Rightarrow> string list \<Rightarrow> (bindings \<Rightarrow> request \<Rightarrow> state \<Rightarrow> state \<times> (error + response)) \<Rightarrow>
   document option \<Rightarrow> request \<Rightarrow> state \<Rightarrow> state \<times> response" where
  "call_handler outer params body u req s =
     (let args = [ReqObj u, ResObj, NextFn];
          b = outer ++ map_of (zip params (args @ replicate (length params - length args) Undefined))
      in case body b req s of
           (s', Inl e) \<Rightarrow> (s', ServerError e)
         | (s', Inr r) \<Rightarrow> (s', r))"

text \<open>
  The parameter lists of the logout handler: \<^verbatim>\<open>() => { ... }\<close> in the first variant
  (line 77), \<^verbatim>\<open>function(req, res){ ... }\<close> in the second (line 147).
\<close>

definition logout_params :: "variant \<Rightarrow> string list" where
  "logout_params v = (case v of V1 \<Rightarrow> [] | V2 \<Rightarrow> [''req'', ''res''])"

section \<open>The view\<close>

text \<open>
  Modelled from the spec: the template views/layout.hbs, which app.js renders, is not among
  the sources. The spec gives its contract: it takes the one input \<open>user\<close> and branches on
  its truthiness, to show either a logout link and the account payload, or a login link. The
  lesson text (readme.md, lines 246 to 254) has the same shape and the two links' targets.
  An input that is absent or undefined is falsy; a user object is truthy.
\<close>

datatype element = Link string string | Payload document

definition layout :: "(string \<times> document option) list \<Rightarrow> element list" where
  "layout locals =
     (case map_of locals ''user'' of
        Some (Some u) \<Rightarrow> [Payload u, Link ''/logout'' ''Logout'']
      | _ \<Rightarrow> [Link ''/auth/google'' ''Login with Google''])"

section \<open>The application (app.js)\<close>

text \<open>
  The strategy app.js registers (lines 48 to 58 and 126 to 136): the OAuth 2.0 strategy for
  Google, with the credentials of app-env.js, the variant's callback URL, and the verify
  function over the User model's find-or-create.
\<close>

definition callback_url :: "variant \<Rightarrow> string" where
  "callback_url v =
     (case v of
        V1 \<Rightarrow> ''http://127.0.0.1:3000/auth/google/callback''
      | V2 \<Rightarrow> ''http://www.localhost:3000/auth/google/callback'')"

definition google ::
  "variant \<Rightarrow> world \<Rightarrow> options \<Rightarrow> request \<Rightarrow>
   (document action \<Rightarrow> collection \<Rightarrow> 'r) \<Rightarrow> collection \<Rightarrow> 'r" where
  "google v w =
     OAuth2Strategy
       \<lparr>clientID = GOOGLE_CLIENT_ID (ENV w),
        clientSecret = GOOGLE_CLIENT_SECRET (ENV w),
        callbackURL = callback_url v\<rparr>
       (verify (findOrCreate userSchema (faults w)))
       (exchange w)"

text \<open>
  What each variant registers with \<open>passport.serializeUser\<close> and
  \<open>passport.deserializeUser\<close>: the first variant its two functions (lines 30 to 35), the
  second variant nothing.
\<close>

definition serializer ::
  "variant \<Rightarrow> (document \<Rightarrow> (error option \<Rightarrow> document \<Rightarrow> 'k) \<Rightarrow> 'k) option" where
  "serializer v = (case v of V1 \<Rightarrow> Some serializeUser | V2 \<Rightarrow> None)"

definition deserializer ::
  "variant \<Rightarrow> (document \<Rightarrow> (error option \<Rightarrow> document \<Rightarrow> 'k) \<Rightarrow> 'k) option" where
  "deserializer v = (case v of V1 \<Rightarrow> Some deserializeUser | V2 \<Rightarrow> None)"

text \<open>
  The routes, in the order app.js registers them (lines 65 to 85 and 139 to 155); \<open>u\<close> is
  \<open>req.user\<close> as the session middleware left it.
\<close>

definition routes ::
  "variant \<Rightarrow> world \<Rightarrow> document option \<Rightarrow> (string \<times> (request \<Rightarrow> state \<Rightarrow> state \<times> response)) list" where
  "routes v w u =
     [(''/auth/google'',
         authenticate (serializer v) (google v w)
           \<lparr>scope = Some ''email'', successRedirect = None, failureRedirect = None\<rparr>),
      (''/auth/google/callback'',
         authenticate (serializer v) (google v w)
           \<lparr>scope = None, successRedirect = Some ''/'', failureRedirect = Some ''/''\<rparr>),
      (''/logout'', call_handler (module_scope v) (logout_params v) logout_body u),
      (''/'', call_handler (module_scope v) [''req'', ''res''] home_body u)]"

text \<open>
  One request: the session middleware with what the variant registered, then the first
  route whose path is the request's; a
  request no route matches is a 404. The other middleware app.js installs (cookies, logging,
  body parsing, static files) keeps no state of the application and is left out.
\<close>

definition handle :: "variant \<Rightarrow> world \<Rightarrow> request \<Rightarrow> state \<Rightarrow> state \<times> response" where
  "handle v w req s =
     (case current_user (deserializer v) s req of
        Inl e \<Rightarrow> (s, ServerError e)
      | Inr u \<Rightarrow>
          (case map_of (routes v w u) (path req) of
             None \<Rightarrow> (s, NotFound)
           | Some h \<Rightarrow> h req s))"

text \<open>The state after a sequence of requests, each with the world it met.\<close>

fun run :: "variant \<Rightarrow> (world \<times> request) list \<Rightarrow> state \<Rightarrow> state" where
  "run v [] s = s"
| "run v ((w, req) # evs) s = run v evs (fst (handle v w req s))"

text \<open>
  What the registered strategy does with a request, read off with the callback that returns
  its two arguments: the action it ends with, and the User collection it leaves.
\<close>

definition google_result ::
  "variant \<Rightarrow> world \<Rightarrow> options \<Rightarrow> request \<Rightarrow> collection \<Rightarrow> document action \<times> collection" where
  "google_result v w opts req db = google v w opts req (\<lambda>action db'. (action, db')) db"

text \<open>The options of the callback route, and the empty state the application starts from.\<close>

definition callback_options :: options where
  "callback_options = \<lparr>scope = None, successRedirect = Some ''/'', failureRedirect = Some ''/''\<rparr>"

definition initial :: state where
  "initial = \<lparr>users = \<lparr>docs = [], next_id = 0\<rparr>, sessions = Map.empty\<rparr>"

subsection \<open>Concrete inputs\<close>

text \<open>
  A world in which the provider accepts every authorization code and answers with the same
  Google account, and the database works; the same world with the database's lookup
  failing; and the request by which the provider sends the browser back with a code.
\<close>

definition account :: profile where
  "account = \<lparr>profile_id = ''1001'', displayName = ''Ann'', emails = [''ann@example.com'']\<rparr>"

definition provider_accepts :: world where
  "provider_accepts =
     \<lparr>ENV = \<lparr>GOOGLE_CLIENT_ID = ''client'', GOOGLE_CLIENT_SECRET = ''secret''\<rparr>,
      exchange = (\<lambda>code. Inr (''access'', ''refresh'', account)),
      faults = \<lparr>find_fault = None, save_fault = None\<rparr>\<rparr>"

definition database_down :: world where
  "database_down =
     provider_accepts
       \<lparr>faults := \<lparr>find_fault = Some (DatabaseError ''unreachable''), save_fault = None\<rparr>\<rparr>"

definition get :: "string \<Rightarrow> string option \<Rightarrow> request" where
  "get p code = \<lparr>path = p, sid = 0, query_code = code, query_error = None\<rparr>"

text \<open>The state the first variant is in after a first login.\<close>

definition logged_in :: state where
  "logged_in =
     \<lparr>users = \<lparr>docs = [\<lparr>doc_id = 0, doc_fields = []\<rparr>], next_id = 1\<rparr>,
      sessions = [0 \<mapsto> \<lparr>doc_id = 0, doc_fields = []\<rparr>]\<rparr>"

section \<open>How a request is handled\<close>

text \<open>
  In the first variant the session middleware never fails and never consults the User
  collection: the current user is whatever the session holds. In the second variant it
  fails on a session that holds an object, and passes a session that holds none.
\<close>

lemma current_user_first_variant:
  "current_user (deserializer V1) s req = Inr (sessions s (sid req))"
  by (simp add: current_user_def deserializer_def deserializeUser_def split: option.splits)

lemma current_user_second_variant:
  "current_user (deserializer V2) s req =
     (case sessions s (sid req) of
        None \<Rightarrow> Inr None
      | Some obj \<Rightarrow> Inl (SessionError ''Failed to deserialize user out of session''))"
  by (simp add: current_user_def deserializer_def split: option.splits)

lemma current_user_Inr:
  "current_user (deserializer v) s req = Inr u \<Longrightarrow> u = sessions s (sid req)"
  by (cases v) (simp_all add: current_user_first_variant current_user_second_variant
                   split: option.splits)

text \<open>
  The document the User model builds from the verify function's conditions: \<open>googleId\<close> is
  not a path of the schema, so nothing of the conditions is kept.
\<close>

lemma new_document_googleId:
  "new_document userSchema i [(''googleId'', x)] = \<lparr>doc_id = i, doc_fields = []\<rparr>"
  by (simp add: new_document_def userSchema_def)

lemma no_document_matches_googleId:
  "list_all (\<lambda>d. doc_fields d = []) ds \<Longrightarrow> find (matches [(''googleId'', x)]) ds = None"
  by (induction ds) (simp_all add: matches_def)

lemma find_append_None: "find P xs = None \<Longrightarrow> find P (xs @ ys) = find P ys"
  by (induction xs) (simp_all split: if_splits)

subsection \<open>The strategy\<close>

text \<open>Whatever the callback, the strategy hands it the action and the collection of \<open>google_result\<close>.\<close>

lemma google_callback:
  "google v w opts req k db = (case google_result v w opts req db of (a, db') \<Rightarrow> k a db')"
  unfolding google_result_def google_def OAuth2Strategy_def verify_def findOrCreate_def
  by (simp add: Let_def split: option.splits sum.splits prod.splits)

lemma google_result_docs:
  "snd (google_result v w opts req db) = db \<or>
   snd (google_result v w opts req db) =
     db\<lparr>docs := docs db @ [\<lparr>doc_id = next_id db, doc_fields = []\<rparr>], next_id := Suc (next_id db)\<rparr>"
  unfolding google_result_def google_def OAuth2Strategy_def verify_def findOrCreate_def
  by (simp add: Let_def new_document_googleId split: option.splits sum.splits prod.splits)

lemma google_result_code:
  assumes "query_error req = None" and "query_code req = Some c"
    and "exchange w c = Inr (accessToken, refreshToken, p)"
    and "faults w = \<lparr>find_fault = None, save_fault = None\<rparr>"
  shows "google_result v w opts req db =
     (case find (matches [(''googleId'', profile_id p)]) (docs db) of
        Some d \<Rightarrow> (Success d, db)
      | None \<Rightarrow>
          (Success \<lparr>doc_id = next_id db, doc_fields = []\<rparr>,
           db\<lparr>docs := docs db @ [\<lparr>doc_id = next_id db, doc_fields = []\<rparr>],
              next_id := Suc (next_id db)\<rparr>))"
  using assms
  by (simp add: google_result_def google_def OAuth2Strategy_def verify_def findOrCreate_def
        verified_def Let_def new_document_googleId split: option.splits)

lemma google_result_find_fault:
  assumes "query_error req = None" and "query_code req = Some c"
    and "exchange w c = Inr (accessToken, refreshToken, p)"
    and "find_fault (faults w) = Some e"
  shows "google_result v w opts req db = (Error e, db)"
  using assms
  by (simp add: google_result_def google_def OAuth2Strategy_def verify_def findOrCreate_def
        verified_def)

lemma google_result_initiate:
  assumes "query_error req = None" and "query_code req = None"
  shows "google_result v w opts req db =
     (RedirectTo (Provider \<lparr>client_id = GOOGLE_CLIENT_ID (ENV w), redirect_uri = callback_url v,
                            scope_param = scope opts\<rparr>), db)"
  using assms by (simp add: google_result_def google_def OAuth2Strategy_def)

lemma google_result_error:
  assumes "query_error req = Some e"
  shows "google_result v w opts req db =
     (if e = ''access_denied'' then Fail else Error (OAuthError e), db)"
  using assms by (simp add: google_result_def google_def OAuth2Strategy_def)

lemma authenticate_google:
  "authenticate (serializer v') (google v w) opts req s =
     (case google_result v w opts req (users s) of
        (Success user, db) \<Rightarrow>
          (case v' of
             V1 \<Rightarrow>
               (s\<lparr>users := db, sessions := (sessions s)(sid req \<mapsto> user)\<rparr>,
                (case successRedirect opts of Some url \<Rightarrow> Redirect (Local url) | None \<Rightarrow> NotFound))
           | V2 \<Rightarrow>
               (s\<lparr>users := db\<rparr>,
                ServerError (SessionError ''Failed to serialize user into session'')))
      | (Fail, db) \<Rightarrow>
          (s\<lparr>users := db\<rparr>,
           (case failureRedirect opts of Some url \<Rightarrow> Redirect (Local url) | None \<Rightarrow> Unauthorized))
      | (Error e, db) \<Rightarrow> (s\<lparr>users := db\<rparr>, ServerError e)
      | (RedirectTo loc, db) \<Rightarrow> (s\<lparr>users := db\<rparr>, Redirect loc))"
  by (simp add: authenticate_def google_callback serializer_def serializeUser_def Let_def
           split: prod.splits action.splits variant.splits)

lemma callback_options_sel:
  "successRedirect callback_options = Some ''/''"
  "failureRedirect callback_options = Some ''/''"
  "scope callback_options = None"
  by (simp_all add: callback_options_def)

lemma authenticate_users:
  "users (fst (authenticate (serializer v') (google v w) opts req s)) =
     snd (google_result v w opts req (users s))"
  by (simp add: authenticate_google split: prod.splits action.splits variant.splits)

lemma authenticate_sessions_second_variant:
  "sessions (fst (authenticate (serializer V2) (google v w) opts req s)) = sessions s"
  by (simp add: authenticate_google split: prod.splits action.splits)

subsection \<open>The routes\<close>

text \<open>
  The route a request is given to, once the session middleware has passed it on with
  \<open>req.user\<close>.
\<close>

lemma module_scope_req: "module_scope v ''req'' = None"
  by (cases v) (simp_all add: module_scope_def module_names_def node_names_def)

lemma handle_session_error:
  "current_user (deserializer v) s req = Inl e \<Longrightarrow> handle v w req s = (s, ServerError e)"
  by (simp add: handle_def)

lemma handle_home:
  "path req = ''/'' \<Longrightarrow> current_user (deserializer v) s req = Inr u \<Longrightarrow>
   handle v w req s = (s, Render ''layout'' [(''user'', u)])"
  by (simp add: handle_def routes_def call_handler_def home_body_def
        resolve_def req_user_def res_render_def map_add_def)

lemma handle_logout_V2:
  "path req = ''/logout'' \<Longrightarrow> current_user (deserializer V2) s req = Inr u \<Longrightarrow>
   handle V2 w req s = (s\<lparr>sessions := (sessions s)(sid req := None)\<rparr>, Redirect (Local ''/''))"
  by (simp add: handle_def routes_def call_handler_def logout_body_def
        logout_params_def resolve_def req_logout_def res_redirect_def map_add_def)

lemma handle_logout_V1:
  "path req = ''/logout'' \<Longrightarrow> handle V1 w req s = (s, ServerError (ReferenceError ''req''))"
  by (simp add: handle_def current_user_first_variant routes_def call_handler_def logout_body_def
        logout_params_def resolve_def module_scope_req)

lemma handle_auth_google:
  "path req = ''/auth/google'' \<Longrightarrow> current_user (deserializer v) s req = Inr u \<Longrightarrow>
   handle v w req s =
     authenticate (serializer v) (google v w)
       \<lparr>scope = Some ''email'', successRedirect = None, failureRedirect = None\<rparr> req s"
  by (simp add: handle_def routes_def)

lemma handle_callback:
  "path req = ''/auth/google/callback'' \<Longrightarrow> current_user (deserializer v) s req = Inr u \<Longrightarrow>
   handle v w req s = authenticate (serializer v) (google v w) callback_options req s"
  by (simp add: handle_def routes_def callback_options_def)

lemma handle_other:
  "path req \<notin> {''/auth/google'', ''/auth/google/callback'', ''/logout'', ''/''} \<Longrightarrow>
   handle v w req s = (s, NotFound) \<or> (\<exists>e. handle v w req s = (s, ServerError e))"
  by (cases "current_user (deserializer v) s req") (simp_all add: handle_def routes_def)

subsection \<open>What a request does to the User collection\<close>

lemma handle_users:
  "users (fst (handle v w req s)) = users s \<or>
   users (fst (handle v w req s)) =
     (users s)\<lparr>docs := docs (users s) @ [\<lparr>doc_id = next_id (users s), doc_fields = []\<rparr>],
               next_id := Suc (next_id (users s))\<rparr>"
proof (cases "current_user (deserializer v) s req")
  case (Inl e)
  then show ?thesis by (simp add: handle_session_error)
next
  case (Inr u)
  consider (a) "path req = ''/auth/google''" | (c) "path req = ''/auth/google/callback''"
    | (l) "path req = ''/logout''" | (h) "path req = ''/''"
    | (o) "path req \<notin> {''/auth/google'', ''/auth/google/callback'', ''/logout'', ''/''}"
    by blast
  then show ?thesis
  proof cases
    case a
    then show ?thesis
      using google_result_docs [of v w _ req "users s"]
      by (simp add: handle_auth_google [OF _ Inr] authenticate_users)
  next
    case c
    then show ?thesis
      using google_result_docs [of v w _ req "users s"]
      by (simp add: handle_callback [OF _ Inr] authenticate_users)
  next
    case l
    show ?thesis
    proof (cases v)
      case V1
      with l show ?thesis by (simp add: handle_logout_V1)
    next
      case V2
      with l Inr show ?thesis by (simp add: handle_logout_V2)
    qed
  next
    case h
    then show ?thesis by (simp add: handle_home [OF _ Inr])
  next
    case o
    then show ?thesis using handle_other [of req v w s] by auto
  qed
qed

lemma handle_docs:
  "\<exists>new. docs (users (fst (handle v w req s))) = docs (users s) @ new \<and>
         list_all (\<lambda>d. doc_fields d = []) new"
  using handle_users [of v w req s]
proof
  assume "users (fst (handle v w req s)) = users s"
  then show ?thesis by (intro exI [of _ "[]"]) simp
next
  assume "users (fst (handle v w req s)) =
     (users s)\<lparr>docs := docs (users s) @ [\<lparr>doc_id = next_id (users s), doc_fields = []\<rparr>],
               next_id := Suc (next_id (users s))\<rparr>"
  then have "docs (users (fst (handle v w req s))) =
      docs (users s) @ [\<lparr>doc_id = next_id (users s), doc_fields = []\<rparr>]" by simp
  moreover have "list_all (\<lambda>d. doc_fields d = []) [\<lparr>doc_id = next_id (users s), doc_fields = []\<rparr>]"
    by simp
  ultimately show ?thesis by blast
qed

lemma run_docs:
  "\<exists>new. docs (users (run v evs s)) = docs (users s) @ new \<and>
         list_all (\<lambda>d. doc_fields d = []) new"
proof (induction evs arbitrary: s)
  case Nil
  show ?case by (intro exI [of _ "[]"]) simp
next
  case (Cons ev evs)
  obtain w req where ev: "ev = (w, req)" by (cases ev)
  obtain new1 where n1: "docs (users (fst (handle v w req s))) = docs (users s) @ new1"
    and e1: "list_all (\<lambda>d. doc_fields d = []) new1"
    using handle_docs by blast
  obtain new2 where n2: "docs (users (run v evs (fst (handle v w req s)))) =
      docs (users (fst (handle v w req s))) @ new2"
    and e2: "list_all (\<lambda>d. doc_fields d = []) new2"
    using Cons.IH by blast
  have "docs (users (run v (ev # evs) s)) = docs (users s) @ (new1 @ new2)"
    by (simp add: ev n1 n2)
  moreover have "list_all (\<lambda>d. doc_fields d = []) (new1 @ new2)"
    using e1 e2 by simp
  ultimately show ?case by blast
qed

text \<open>
  The documents that existed are still there after any requests, in their places and
  unchanged: the program updates and deletes nothing.
\<close>

lemma existing_documents_are_kept: "prefix (docs (users s)) (docs (users (run v evs s)))"
  using run_docs [of v evs s] by (auto simp: prefix_def)

text \<open>
  A login through the callback route, with the provider accepting the code and the database
  working, adds a document whenever the documents there are hold no values, as all those
  do that this application created.
\<close>

lemma every_login_creates_a_user:
  assumes "list_all (\<lambda>d. doc_fields d = []) (docs (users s))"
    and "path req = ''/auth/google/callback''"
    and "current_user (deserializer v) s req = Inr u"
    and "query_error req = None" and "query_code req = Some c"
    and "exchange w c = Inr (accessToken, refreshToken, p)"
    and "faults w = \<lparr>find_fault = None, save_fault = None\<rparr>"
  shows "users (fst (handle v w req s)) =
     (users s)\<lparr>docs := docs (users s) @ [\<lparr>doc_id = next_id (users s), doc_fields = []\<rparr>],
               next_id := Suc (next_id (users s))\<rparr>"
  using assms(1)
  by (simp add: handle_callback [OF assms(2,3)] authenticate_users
        google_result_code [OF assms(4-7)] no_document_matches_googleId)

text \<open>
  Find-or-create does find what it created when the key of the conditions is a path of the
  schema: the second of two calls with the same conditions returns the document the first
  one saved, and saves nothing.
\<close>

lemma findOrCreate_finds_declared_key:
  assumes "k \<in> set schema" and "find_fault f = None" and "save_fault f = None"
    and "find (matches [(k, x)]) (docs db) = None"
  shows "findOrCreate schema f [(k, x)]
           (\<lambda>err user db'. findOrCreate schema f [(k, x)] (\<lambda>err' user' db''. (user', docs db'')) db')
           db =
         (Some \<lparr>doc_id = next_id db, doc_fields = [(k, x)]\<rparr>,
          docs db @ [\<lparr>doc_id = next_id db, doc_fields = [(k, x)]\<rparr>])"
proof -
  let ?d = "\<lparr>doc_id = next_id db, doc_fields = [(k, x)]\<rparr>"
  have new: "new_document schema (next_id db) [(k, x)] = ?d"
    using assms(1) by (simp add: new_document_def)
  have "find (matches [(k, x)]) (docs db @ [?d]) = Some ?d"
    using assms(4) by (simp add: find_append_None matches_def)
  then show ?thesis
    using assms by (simp add: findOrCreate_def Let_def new)
qed

subsection \<open>Sessions\<close>

text \<open>
  The state \<open>logged_in\<close> is the one a first login leaves in the first variant. The second
  variant registers no serializer, so none of its sessions ever holds a user.
\<close>

lemma logged_in_after_first_login:
  "fst (handle V1 provider_accepts (get ''/auth/google/callback'' (Some ''code1'')) initial) =
     logged_in"
proof -
  have "google_result V1 provider_accepts callback_options
          (get ''/auth/google/callback'' (Some ''code1'')) (users initial) =
        (Success \<lparr>doc_id = 0, doc_fields = []\<rparr>,
         \<lparr>docs = [\<lparr>doc_id = 0, doc_fields = []\<rparr>], next_id = 1\<rparr>)"
    by (subst google_result_code [where c = "''code1''" and p = account])
       (simp_all add: get_def provider_accepts_def initial_def)
  then show ?thesis
    by (simp add: handle_callback [OF _ current_user_first_variant] authenticate_google get_def
          callback_options_def)
       (simp add: initial_def logged_in_def)
qed

lemma handle_sessions_second_variant:
  assumes "sessions s = Map.empty"
  shows "sessions (fst (handle V2 w req s)) = Map.empty"
proof -
  have cu: "current_user (deserializer V2) s req = Inr None"
    using assms by (simp add: current_user_second_variant)
  consider (a) "path req = ''/auth/google''" | (c) "path req = ''/auth/google/callback''"
    | (l) "path req = ''/logout''" | (h) "path req = ''/''"
    | (o) "path req \<notin> {''/auth/google'', ''/auth/google/callback'', ''/logout'', ''/''}"
    by blast
  then show ?thesis
  proof cases
    case a
    then show ?thesis
      using assms by (simp add: handle_auth_google [OF _ cu] authenticate_sessions_second_variant)
  next
    case c
    then show ?thesis
      using assms by (simp add: handle_callback [OF _ cu] authenticate_sessions_second_variant)
  next
    case l
    then show ?thesis using assms by (simp add: handle_logout_V2 [OF _ cu])
  next
    case h
    then show ?thesis using assms by (simp add: handle_home [OF _ cu])
  next
    case o
    then show ?thesis using assms handle_other [of req V2 w s] by auto
  qed
qed

lemma second_variant_never_holds_session_user:
  "sessions s = Map.empty \<Longrightarrow> sessions (run V2 evs s) = Map.empty"
proof (induction evs arbitrary: s)
  case Nil
  then show ?case by simp
next
  case (Cons ev evs)
  obtain w req where ev: "ev = (w, req)" by (cases ev)
  show ?case
    using Cons.IH [OF handle_sessions_second_variant [OF Cons.prems]]
    by (simp add: ev)
qed

text \<open>
  The second variant's logout handler, called by the framework, does end the session and
  redirect, whatever the session holds.
\<close>

lemma logout_handler_of_second_variant:
  "call_handler (module_scope V2) (logout_params V2) logout_body u req s =
     (s\<lparr>sessions := (sessions s)(sid req := None)\<rparr>, Redirect (Local ''/''))"
  by (simp add: call_handler_def logout_body_def logout_params_def resolve_def req_logout_def
        res_redirect_def map_add_def)

lemma logout_in_second_variant:
  "path req = ''/logout'' \<Longrightarrow>
   handle V2 w req (run V2 evs initial) = (run V2 evs initial, Redirect (Local ''/''))"
proof -
  assume p: "path req = ''/logout''"
  have e: "sessions (run V2 evs initial) = Map.empty"
    by (rule second_variant_never_holds_session_user) (simp add: initial_def)
  then have "current_user (deserializer V2) (run V2 evs initial) req = Inr None"
    by (simp add: current_user_second_variant)
  from handle_logout_V2 [OF p this] e show ?thesis by simp
qed

section \<open>Properties\<close>

text \<open>
  C1. For every Google identity at most one User document is created across repeated
  logins: the second successful callback with the same \<open>profile.id\<close> finds the User the
  first one created. The code does not do this. The verify function looks users up by
  \<open>googleId\<close>, a path the schema does not declare, so the document of the first login is
  saved without it and the lookup of the second login finds nothing: two logins of the same
  account, from the empty collection, leave two documents, in either variant of app.js.
\<close>

theorem second_login_creates_second_user:
  "docs (users (run v [(provider_accepts, get ''/auth/google/callback'' (Some ''code1'')),
                        (provider_accepts, get ''/auth/google/callback'' (Some ''code2''))] initial))
     = [\<lparr>doc_id = 0, doc_fields = []\<rparr>, \<lparr>doc_id = 1, doc_fields = []\<rparr>]"
proof -
  have w: "faults provider_accepts = \<lparr>find_fault = None, save_fault = None\<rparr>"
    "\<And>c. exchange provider_accepts c = Inr (''access'', ''refresh'', account)"
    by (simp_all add: provider_accepts_def)
  have r: "\<And>c. path (get ''/auth/google/callback'' c) = ''/auth/google/callback''"
    "\<And>c. query_error (get ''/auth/google/callback'' c) = None"
    "\<And>c. query_code (get ''/auth/google/callback'' c) = c"
    by (simp_all add: get_def)
  let ?r1 = "get ''/auth/google/callback'' (Some ''code1'')"
  let ?r2 = "get ''/auth/google/callback'' (Some ''code2'')"
  let ?s1 = "fst (handle v provider_accepts ?r1 initial)"
  have c1: "current_user (deserializer v) initial ?r1 = Inr (sessions initial (sid ?r1))"
    by (cases v)
       (simp_all add: current_user_first_variant current_user_second_variant initial_def)
  have c2: "current_user (deserializer v) ?s1 ?r2 = Inr (sessions ?s1 (sid ?r2))"
  proof (cases v)
    case V1
    then show ?thesis by (simp add: current_user_first_variant)
  next
    case V2
    have "sessions (fst (handle V2 provider_accepts ?r1 initial)) = Map.empty"
      by (rule handle_sessions_second_variant) (simp add: initial_def)
    with V2 show ?thesis by (simp add: current_user_second_variant)
  qed
  have s1: "users ?s1 = \<lparr>docs = [\<lparr>doc_id = 0, doc_fields = []\<rparr>], next_id = Suc 0\<rparr>"
    by (subst every_login_creates_a_user [OF _ r(1) c1 r(2) r(3) w(2) w(1)])
       (simp_all add: initial_def)
  have "users (fst (handle v provider_accepts ?r2 ?s1)) =
      \<lparr>docs = [\<lparr>doc_id = 0, doc_fields = []\<rparr>, \<lparr>doc_id = 1, doc_fields = []\<rparr>],
       next_id = Suc (Suc 0)\<rparr>"
    by (subst every_login_creates_a_user [OF _ r(1) c2 r(2) r(3) w(2) w(1)])
       (simp_all add: s1)
  then show ?thesis by simp
qed

text \<open>
  C2. A request to \<open>/logout\<close> ends the session and redirects to \<open>/\<close> without failing. The
  first variant of app.js does not do this: its handler takes no parameters, so \<open>req\<close> is
  bound nowhere, the first statement raises a ReferenceError, the answer is a server error
  and the session still holds its user.
\<close>

theorem logout_fails_in_first_variant:
  "handle V1 provider_accepts (get ''/logout'' None) logged_in =
     (logged_in, ServerError (ReferenceError ''req''))
   \<and> sessions (fst (handle V1 provider_accepts (get ''/logout'' None) logged_in)) 0 =
       Some \<lparr>doc_id = 0, doc_fields = []\<rparr>"
  by (simp add: handle_logout_V1 get_def) (simp add: logged_in_def)

text \<open>
  C3. Session serialization is the identity round trip: \<open>serializeUser\<close> stores the user
  object itself, with no projection of fields, and \<open>deserializeUser\<close> gives back exactly the
  stored object, so deserializing what was serialized yields the user one started from, for
  every user object.
\<close>

theorem serialize_deserialize_roundtrip:
  "serializeUser u (\<lambda>err stored. deserializeUser stored (\<lambda>err' u'. (err, stored, err', u')))
     = (None, u, None, u)"
  by (simp add: serializeUser_def deserializeUser_def)

text \<open>
  C4, as amended. Of a request to \<open>/auth/google/callback\<close> that the session middleware has
  passed on: when its authentication fails it is redirected to \<open>/\<close>, in both variants, with
  no error response of its own; when its authentication succeeds it is redirected to \<open>/\<close> too,
  in the variant that registers \<open>serializeUser\<close> (the first), so that there the two branches
  have the same target. A request the strategy ends with an error is not redirected: the
  error goes to the framework's error handling. A request the strategy redirects is sent
  where the strategy says. What a successful login does in the second variant, which has no
  serializer to log the user in with, is not part of the statement.
\<close>

theorem callback_redirects_home_on_success_and_failure:
  "path req = ''/auth/google/callback'' \<Longrightarrow> current_user (deserializer v) s req = Inr u \<Longrightarrow>
   (case fst (google_result v w callback_options req (users s)) of
      Success user \<Rightarrow> v = V1 \<longrightarrow> snd (handle v w req s) = Redirect (Local ''/'')
    | Fail \<Rightarrow> snd (handle v w req s) = Redirect (Local ''/'')
    | Error e \<Rightarrow> snd (handle v w req s) = ServerError e
    | RedirectTo loc \<Rightarrow> snd (handle v w req s) = Redirect loc)"
proof -
  assume "path req = ''/auth/google/callback''" and "current_user (deserializer v) s req = Inr u"
  then have "handle v w req s = authenticate (serializer v) (google v w) callback_options req s"
    by (rule handle_callback)
  then show ?thesis
    by (simp add: authenticate_google callback_options_def
          split: prod.splits action.splits variant.splits)
qed

text \<open>
  A login that succeeds in the first variant, and a login the user denied at the provider,
  in the first variant from a logged-in session and in the second from a fresh one: all
  three redirected to \<open>/\<close>.
\<close>

theorem callback_redirects_home_witness:
  "snd (handle V1 provider_accepts (get ''/auth/google/callback'' (Some ''code1'')) initial) =
     Redirect (Local ''/'')
   \<and> snd (handle V1 provider_accepts
        \<lparr>path = ''/auth/google/callback'', sid = 0, query_code = None,
         query_error = Some ''access_denied''\<rparr> logged_in) = Redirect (Local ''/'')
   \<and> snd (handle V2 provider_accepts
        \<lparr>path = ''/auth/google/callback'', sid = 0, query_code = None,
         query_error = Some ''access_denied''\<rparr> initial) = Redirect (Local ''/'')"
proof -
  let ?login = "get ''/auth/google/callback'' (Some ''code1'')"
  let ?denied = "\<lparr>path = ''/auth/google/callback'', sid = 0, query_code = None,
                  query_error = Some ''access_denied''\<rparr>"
  have a1: "fst (google_result V1 provider_accepts callback_options ?login (users initial)) =
        Success \<lparr>doc_id = 0, doc_fields = []\<rparr>"
    by (subst google_result_code [where c = "''code1''" and p = account])
       (simp_all add: get_def provider_accepts_def initial_def)
  have a2: "\<And>v db. fst (google_result v provider_accepts callback_options ?denied db) = Fail"
    by (simp add: google_result_error)
  have c2: "current_user (deserializer V2) initial ?denied = Inr None"
    by (simp add: current_user_second_variant initial_def)
  show ?thesis
    using callback_redirects_home_on_success_and_failure
            [of ?login V1 initial _ provider_accepts, OF _ current_user_first_variant]
          callback_redirects_home_on_success_and_failure
            [of ?denied V1 logged_in _ provider_accepts, OF _ current_user_first_variant]
          callback_redirects_home_on_success_and_failure
            [of ?denied V2 initial _ provider_accepts, OF _ c2]
    by (simp add: a1 a2) (simp add: get_def)
qed

text \<open>
  The claim as it was stated fails when the database's lookup fails during a login: the
  verify function passes the error to \<open>done\<close>, and the answer is a server error, not a
  redirect to \<open>/\<close>.
\<close>

theorem callback_database_error_is_not_redirected:
  "snd (handle V1 database_down (get ''/auth/google/callback'' (Some ''code1'')) initial) =
     ServerError (DatabaseError ''unreachable'')
   \<and> snd (handle V1 database_down (get ''/auth/google/callback'' (Some ''code1'')) initial) \<noteq>
       Redirect (Local ''/'')"
proof -
  have "google_result V1 database_down callback_options
          (get ''/auth/google/callback'' (Some ''code1'')) (users initial) =
        (Error (DatabaseError ''unreachable''), users initial)"
    by (rule google_result_find_fault [where c = "''code1''"])
       (simp_all add: get_def database_down_def provider_accepts_def)
  then show ?thesis
    by (simp add: handle_callback [OF _ current_user_first_variant] authenticate_google get_def)
qed

text \<open>
  C5. Whatever error and user the find-or-create operation hands to its callback, the
  verify function hands the same two values to \<open>done\<close>, unexamined and unchanged; it has no
  other path. The operation is called with the one condition on \<open>googleId\<close>.
\<close>

theorem verify_hands_result_to_done:
  "verify User_findOrCreate accessToken refreshToken p done =
     User_findOrCreate [(''googleId'', profile_id p)] done
   \<and> verify (\<lambda>cond callback. callback (err cond) (user cond)) accessToken refreshToken p done =
       done (err [(''googleId'', profile_id p)]) (user [(''googleId'', profile_id p)])"
  by (simp add: verify_def)

text \<open>
  C6. A request to \<open>/\<close> renders the one template \<open>layout\<close> with exactly one input, the
  session's user or undefined, and changes nothing. The template shows the login link when
  there is no session user, and the account payload with the logout link when there is one:
  the session user alone decides. This holds of every request the session middleware
  passes on with \<open>req.user\<close>, which it does with every request in the first variant, and
  in the second variant in every state reached from the initial one.
\<close>

theorem home_renders_layout_with_session_user:
  "(path req = ''/'' \<longrightarrow> current_user (deserializer v) s req = Inr u \<longrightarrow>
      handle v w req s = (s, Render ''layout'' [(''user'', u)])
      \<and> u = sessions s (sid req)
      \<and> layout [(''user'', u)] =
          (case u of
             None \<Rightarrow> [Link ''/auth/google'' ''Login with Google'']
           | Some d \<Rightarrow> [Payload d, Link ''/logout'' ''Logout'']))
   \<and> current_user (deserializer V1) s req = Inr (sessions s (sid req))
   \<and> current_user (deserializer V2) (run V2 evs initial) req = Inr None"
proof -
  have "sessions (run V2 evs initial) = Map.empty"
    by (rule second_variant_never_holds_session_user) (simp add: initial_def)
  then have "current_user (deserializer V2) (run V2 evs initial) req = Inr None"
    by (simp add: current_user_second_variant)
  then show ?thesis
    using current_user_Inr [of v s req u]
    by (simp add: handle_home current_user_first_variant layout_def split: option.splits)
qed

text \<open>
  The home page of the first variant, before a login and after the login that leaves the
  state \<open>logged_in\<close>.
\<close>

theorem home_renders_layout_witness:
  "handle V1 provider_accepts (get ''/'' None) initial =
     (initial, Render ''layout'' [(''user'', None)])
   \<and> layout [(''user'', None)] = [Link ''/auth/google'' ''Login with Google'']
   \<and> handle V1 provider_accepts (get ''/'' None) logged_in =
     (logged_in, Render ''layout'' [(''user'', Some \<lparr>doc_id = 0, doc_fields = []\<rparr>)])
   \<and> layout [(''user'', Some \<lparr>doc_id = 0, doc_fields = []\<rparr>)] =
       [Payload \<lparr>doc_id = 0, doc_fields = []\<rparr>, Link ''/logout'' ''Logout'']"
proof -
  have c1: "current_user (deserializer V1) initial (get ''/'' None) = Inr None"
    by (simp add: current_user_first_variant initial_def)
  have c2: "current_user (deserializer V1) logged_in (get ''/'' None) =
      Inr (Some \<lparr>doc_id = 0, doc_fields = []\<rparr>)"
    by (simp add: current_user_first_variant logged_in_def get_def)
  have p: "path (get ''/'' None) = ''/''" by (simp add: get_def)
  note out = home_renders_layout_with_session_user
               [of "get ''/'' None" V1 initial None provider_accepts, THEN conjunct1,
                rule_format, OF p c1]
  note inn = home_renders_layout_with_session_user
               [of "get ''/'' None" V1 logged_in "Some \<lparr>doc_id = 0, doc_fields = []\<rparr>"
                   provider_accepts, THEN conjunct1, rule_format, OF p c2]
  show ?thesis
    using out [THEN conjunct1] out [THEN conjunct2, THEN conjunct2]
          inn [THEN conjunct1] inn [THEN conjunct2, THEN conjunct2]
    by simp
qed

text \<open>
  C7. Once a User document exists, every later login for the same identity only reads the
  existing record through find-or-create, and nothing updates or deletes it. The code does
  not do the first: the lookup by \<open>googleId\<close> cannot find the document that was saved
  without it (the defect of C1), so the second login of the same account, in the state the
  first one left, does not get the existing record 0 but creates record 1 and logs that one
  in.
\<close>

theorem second_login_does_not_read_existing_user:
  "fst (google_result V1 provider_accepts callback_options
          (get ''/auth/google/callback'' (Some ''code2'')) (users logged_in)) =
     Success \<lparr>doc_id = 1, doc_fields = []\<rparr>
   \<and> docs (users (fst (handle V1 provider_accepts
          (get ''/auth/google/callback'' (Some ''code2'')) logged_in))) =
       [\<lparr>doc_id = 0, doc_fields = []\<rparr>, \<lparr>doc_id = 1, doc_fields = []\<rparr>]
   \<and> sessions (fst (handle V1 provider_accepts
          (get ''/auth/google/callback'' (Some ''code2'')) logged_in)) 0 =
       Some \<lparr>doc_id = 1, doc_fields = []\<rparr>"
proof -
  let ?r = "get ''/auth/google/callback'' (Some ''code2'')"
  have g: "google_result V1 provider_accepts callback_options ?r (users logged_in) =
        (Success \<lparr>doc_id = 1, doc_fields = []\<rparr>,
         \<lparr>docs = [\<lparr>doc_id = 0, doc_fields = []\<rparr>, \<lparr>doc_id = 1, doc_fields = []\<rparr>],
          next_id = 2\<rparr>)"
    by (subst google_result_code [where c = "''code2''" and p = account])
       (simp_all add: get_def provider_accepts_def logged_in_def account_def matches_def)
  have "handle V1 provider_accepts ?r logged_in =
      authenticate (serializer V1) (google V1 provider_accepts) callback_options ?r logged_in"
    by (rule handle_callback [OF _ current_user_first_variant]) (simp add: get_def)
  then show ?thesis
    by (simp add: g authenticate_google callback_options_sel) (simp add: get_def)
qed

text \<open>
  C8, as amended. A request to \<open>/auth/google\<close> that carries no authorization code changes
  no state: no User document is written and no session user is established. When it carries
  no \<open>error\<close> parameter either, and the session middleware passes it on (as it does in the
  first variant always, and in the second whenever the session holds no object), all the
  handler does is redirect to the provider, with the fixed scope \<open>email\<close>.
\<close>

theorem auth_google_redirects_to_provider_only:
  "path req = ''/auth/google'' \<Longrightarrow> query_code req = None \<Longrightarrow>
   fst (handle v w req s) = s
   \<and> (query_error req = None \<longrightarrow> (v = V1 \<or> sessions s (sid req) = None) \<longrightarrow>
        snd (handle v w req s) =
          Redirect (Provider \<lparr>client_id = GOOGLE_CLIENT_ID (ENV w), redirect_uri = callback_url v,
                              scope_param = Some ''email''\<rparr>))"
proof (cases "current_user (deserializer v) s req")
  case (Inl e)
  then have "v = V2" and "sessions s (sid req) \<noteq> None"
    by (cases v; simp add: current_user_first_variant current_user_second_variant
          split: option.splits)+
  with Inl show ?thesis by (simp add: handle_session_error)
next
  case (Inr u)
  assume p: "path req = ''/auth/google''" and c: "query_code req = None"
  note h = handle_auth_google [OF p Inr]
  show ?thesis
  proof (cases "query_error req")
    case None
    with c show ?thesis
      by (simp add: h authenticate_google google_result_initiate)
  next
    case (Some e)
    then show ?thesis
      by (simp add: h authenticate_google google_result_error)
  qed
qed

text \<open>The login link followed from a session that is already logged in.\<close>

theorem auth_google_redirects_witness:
  "fst (handle V1 provider_accepts (get ''/auth/google'' None) logged_in) = logged_in
   \<and> snd (handle V1 provider_accepts (get ''/auth/google'' None) logged_in) =
       Redirect (Provider \<lparr>client_id = ''client'',
                           redirect_uri = ''http://127.0.0.1:3000/auth/google/callback'',
                           scope_param = Some ''email''\<rparr>)"
  using auth_google_redirects_to_provider_only
          [of "get ''/auth/google'' None" V1 provider_accepts logged_in]
  by (simp add: get_def provider_accepts_def callback_url_def)

text \<open>
  The claim as it was stated fails for a request to \<open>/auth/google\<close> that carries an
  authorization code the provider accepts: the strategy is the one of the callback route and
  goes by the query, so the code is exchanged, the verify function creates a User document
  and the session gets its user.
\<close>

theorem auth_google_with_code_creates_user:
  "users (fst (handle V1 provider_accepts (get ''/auth/google'' (Some ''code1'')) initial)) =
     \<lparr>docs = [\<lparr>doc_id = 0, doc_fields = []\<rparr>], next_id = 1\<rparr>
   \<and> sessions (fst (handle V1 provider_accepts (get ''/auth/google'' (Some ''code1'')) initial)) 0 =
       Some \<lparr>doc_id = 0, doc_fields = []\<rparr>
   \<and> fst (handle V1 provider_accepts (get ''/auth/google'' (Some ''code1'')) initial) \<noteq> initial"
proof -
  have "google_result V1 provider_accepts
          \<lparr>scope = Some ''email'', successRedirect = None, failureRedirect = None\<rparr>
          (get ''/auth/google'' (Some ''code1'')) (users initial) =
        (Success \<lparr>doc_id = 0, doc_fields = []\<rparr>,
         \<lparr>docs = [\<lparr>doc_id = 0, doc_fields = []\<rparr>], next_id = 1\<rparr>)"
    by (subst google_result_code [where c = "''code1''" and p = account])
       (simp_all add: get_def provider_accepts_def initial_def)
  then have "fst (handle V1 provider_accepts (get ''/auth/google'' (Some ''code1'')) initial) =
      initial\<lparr>users := \<lparr>docs = [\<lparr>doc_id = 0, doc_fields = []\<rparr>], next_id = 1\<rparr>,
              sessions := (sessions initial)(0 \<mapsto> \<lparr>doc_id = 0, doc_fields = []\<rparr>)\<rparr>"
    by (simp add: handle_auth_google [OF _ current_user_first_variant] authenticate_google get_def)
  then show ?thesis
    by (simp add: initial_def)
qed

text \<open>
  C9. \<open>serializeUser\<close> and \<open>deserializeUser\<close> never signal an error: for every object they
  call their completion callback with the error argument null. \<open>deserializeUser\<close> looks
  nothing up: where it is registered, in the first variant, the current user of a request is
  the object its session holds, whatever the User collection holds, and the home page is
  rendered with it.
\<close>

theorem session_user_is_not_revalidated:
  "serializeUser u done = done None u
   \<and> deserializeUser u' done' = done' None u'
   \<and> current_user (Some deserializeUser) (s\<lparr>users := db\<rparr>) req = Inr (sessions s (sid req))
   \<and> handle V1 w \<lparr>path = ''/'', sid = i, query_code = c, query_error = e\<rparr> (s\<lparr>users := db\<rparr>) =
       (s\<lparr>users := db\<rparr>, Render ''layout'' [(''user'', sessions s i)])"
proof -
  have "current_user (Some deserializeUser) (s\<lparr>users := db\<rparr>) req = Inr (sessions s (sid req))"
    by (simp add: current_user_def deserializeUser_def split: option.splits)
  moreover have "handle V1 w \<lparr>path = ''/'', sid = i, query_code = c, query_error = e\<rparr>
        (s\<lparr>users := db\<rparr>) = (s\<lparr>users := db\<rparr>, Render ''layout'' [(''user'', sessions s i)])"
    by (subst handle_home [OF _ current_user_first_variant]) simp_all
  ultimately show ?thesis
    by (simp add: serializeUser_def deserializeUser_def)
qed

text \<open>
  In the first variant, a user whose document is gone from the collection is still the
  session's user.
\<close>

theorem deleted_user_remains_logged_in:
  "handle V1 provider_accepts (get ''/'' None) (logged_in\<lparr>users := \<lparr>docs = [], next_id = 1\<rparr>\<rparr>) =
     (logged_in\<lparr>users := \<lparr>docs = [], next_id = 1\<rparr>\<rparr>,
      Render ''layout'' [(''user'', Some \<lparr>doc_id = 0, doc_fields = []\<rparr>)])"
proof -
  have "sessions logged_in 0 = Some \<lparr>doc_id = 0, doc_fields = []\<rparr>"
    by (simp add: logged_in_def)
  with session_user_is_not_revalidated
         [where s = logged_in and db = "\<lparr>docs = [], next_id = 1\<rparr>"
            and w = provider_accepts and i = 0 and c = None and e = None,
          THEN conjunct2, THEN conjunct2, THEN conjunct2]
  show ?thesis by (simp add: get_def)
qed

text \<open>
  C10. The verify function persists nothing of the provider's answer. The access token,
  the refresh token and the profile's name and email addresses do not reach the
  find-or-create operation, whose one condition is on \<open>googleId\<close>; and every User document
  the program creates, in any sequence of requests, holds no value at all, so none at the
  schema's paths \<open>google.id\<close>, \<open>google.access_token\<close> and \<open>google.email\<close>.
\<close>

theorem created_users_hold_no_google_data:
  "verify User_findOrCreate accessToken refreshToken p done =
     verify User_findOrCreate accessToken' refreshToken' (p\<lparr>displayName := n, emails := es\<rparr>) done
   \<and> verify User_findOrCreate accessToken refreshToken p done =
       User_findOrCreate [(''googleId'', profile_id p)] done
   \<and> (\<forall>d \<in> set (drop (length (docs (users s))) (docs (users (run v evs s)))).
         doc_fields d = [] \<and>
         map_of (doc_fields d) ''google.id'' = None \<and>
         map_of (doc_fields d) ''google.access_token'' = None \<and>
         map_of (doc_fields d) ''google.email'' = None)"
proof -
  obtain new where "docs (users (run v evs s)) = docs (users s) @ new"
    and "list_all (\<lambda>d. doc_fields d = []) new"
    using run_docs by blast
  then show ?thesis by (simp add: verify_def list_all_iff)
qed

text \<open>The document of a first login.\<close>

theorem created_users_witness:
  "drop (length (docs (users initial)))
     (docs (users (run V1 [(provider_accepts, get ''/auth/google/callback'' (Some ''code1''))] initial)))
     = [\<lparr>doc_id = 0, doc_fields = []\<rparr>]
   \<and> doc_fields \<lparr>doc_id = 0, doc_fields = []\<rparr> = []
   \<and> map_of (doc_fields \<lparr>doc_id = 0, doc_fields = []\<rparr>) ''google.id'' = None"
proof -
  have run: "docs (users (run V1 [(provider_accepts, get ''/auth/google/callback'' (Some ''code1''))] initial))
     = [\<lparr>doc_id = 0, doc_fields = []\<rparr>]"
    by (simp add: logged_in_after_first_login logged_in_def)
  have "\<forall>d \<in> set (drop (length (docs (users initial))) [\<lparr>doc_id = 0, doc_fields = []\<rparr>]).
          doc_fields d = [] \<and>
          map_of (doc_fields d) ''google.id'' = None \<and>
          map_of (doc_fields d) ''google.access_token'' = None \<and>
          map_of (doc_fields d) ''google.email'' = None"
    using created_users_hold_no_google_data
            [where s = initial and v = V1
               and evs = "[(provider_accepts, get ''/auth/google/callback'' (Some ''code1''))]"]
    unfolding run by blast
  then show ?thesis
    unfolding run by (simp add: initial_def)
qed

end
